theory Spec2Isabelle
  imports Complex_Main "HOL-Library.Sublist"
begin

section \<open>Data model\<close>

subsection \<open>JavaScript numbers\<close>

text \<open>
  The source computes with the JavaScript type \<open>number\<close>. The functions modelled here
  only compare numbers with constants, test them for truthiness, and add and divide them
  when averaging. A number is modelled as a real or one of the three special values;
  comparisons with \<open>NaN\<close> are false, as in the language. The floating-point addition
  and division themselves, with their rounding and overflow, are parameters of the
  functions that average. Equality of this type is the equality a \<open>Set<number>\<close> uses
  (SameValueZero: \<open>NaN\<close> equals itself, and the two zeros are one value).
\<close>

datatype number = NaN | NegInf | Fin real | PosInf

fun js_gt :: "number \<Rightarrow> number \<Rightarrow> bool" where
  "js_gt NaN _ = False"
| "js_gt _ NaN = False"
| "js_gt (Fin x) (Fin y) = (y < x)"
| "js_gt PosInf PosInf = False"
| "js_gt PosInf _ = True"
| "js_gt _ PosInf = False"
| "js_gt NegInf _ = False"
| "js_gt (Fin x) NegInf = True"

fun js_ge :: "number \<Rightarrow> number \<Rightarrow> bool" where
  "js_ge NaN _ = False"
| "js_ge _ NaN = False"
| "js_ge (Fin x) (Fin y) = (y \<le> x)"
| "js_ge PosInf _ = True"
| "js_ge NegInf NegInf = True"
| "js_ge _ NegInf = True"
| "js_ge NegInf _ = False"
| "js_ge (Fin x) PosInf = False"

text \<open>Truthiness of a number: \<open>0\<close> and \<open>NaN\<close> are falsy.\<close>

fun truthy_num :: "number \<Rightarrow> bool" where
  "truthy_num NaN = False"
| "truthy_num (Fin x) = (x \<noteq> 0)"
| "truthy_num NegInf = True"
| "truthy_num PosInf = True"

text \<open>Truthiness of a string, and of a \<open>string | null\<close> value.\<close>

definition truthy_str :: "string \<Rightarrow> bool" where
  "truthy_str s = (s \<noteq> [])"

fun truthy_opt :: "string option \<Rightarrow> bool" where
  "truthy_opt None = False"
| "truthy_opt (Some s) = truthy_str s"

subsection \<open>Records (types.ts)\<close>

text \<open>
  The fields keep their names, but for \<open>id\<close> (\<open>book_id\<close>, \<open>node_id\<close>), \<open>name\<close>
  (\<open>node_name\<close>), \<open>value\<close> (\<open>link_value\<close>) and the \<open>genre\<close> and \<open>count\<close> of a
  \<open>GenreData\<close> (\<open>g_genre\<close>, \<open>g_count\<close>), which would clash with existing names.
\<close>

record BookData =
  book_id :: number
  title :: string
  author :: string
  genre :: string
  language :: string
  publicationYear :: number
  publisher :: string
  description :: string
  pageCount :: number
  tags :: string
  rating_average :: number
  most_popular_country :: string
  bestseller_status :: bool
  awards :: string
  age_category :: string
  adapted_to_movie :: bool
  movie_release_year :: "number option"
  isbn :: string

record GenreData =
  g_genre :: string
  g_count :: nat
  avgRating :: number
  avgPageCount :: number

text \<open>
  A link's \<open>source\<close> and \<open>target\<close> come out of an array destructuring, which yields
  \<open>undefined\<close> (here \<open>None\<close>) for a missing position.
\<close>

record SankeyNodeDatum =
  node_id :: string
  node_name :: string

record SankeyLinkDatum =
  source :: "string option"
  target :: "string option"
  link_value :: nat

record SankeyData =
  nodes :: "SankeyNodeDatum list"
  links :: "SankeyLinkDatum list"

section \<open>Aggregators (utils/dataLoader.ts)\<close>

definition getRatingTier :: "number \<Rightarrow> string" where
  "getRatingTier rating =
     (if js_ge rating (Fin 4.5) then ''Acclaimed (4.5+)''
      else if js_ge rating (Fin 4.0) then ''Highly Rated (4.0-4.5)''
      else if js_ge rating (Fin 3.5) then ''Well Rated (3.5-4.0)''
      else ''Average (< 3.5)'')"

subsection \<open>The JavaScript \<open>Map\<close>\<close>

text \<open>
  A \<open>Map\<close> keeps its entries in the order in which their keys were first set, and
  \<open>Array.from(m.entries())\<close> lists them in that order; \<open>set\<close> on a key already present
  replaces the value in place. It is modelled as an association list.
\<close>

fun map_set :: "('k \<times> 'v) list \<Rightarrow> 'k \<Rightarrow> 'v \<Rightarrow> ('k \<times> 'v) list" where
  "map_set [] k v = [(k, v)]"
| "map_set ((k', v') # m) k v = (if k' = k then (k, v) # m else (k', v') # map_set m k v)"

definition map_get :: "('k \<times> 'v) list \<Rightarrow> 'k \<Rightarrow> 'v option" where
  "map_get m k = map_of m k"

subsection \<open>Grouping by genre and the top genres\<close>

record GenreStats =
  s_count :: nat
  totalRating :: number
  totalPages :: number

text \<open>
  \<open>fadd\<close> is the addition of two numbers and \<open>fdiv\<close> the division of a total by a count,
  as the language computes them.
\<close>

definition genreStep ::
  "(number \<Rightarrow> number \<Rightarrow> number) \<Rightarrow> BookData \<Rightarrow> (string \<times> GenreStats) list
   \<Rightarrow> (string \<times> GenreStats) list" where
  "genreStep fadd book genreMap =
     (if \<not> truthy_str (genre book) then genreMap
      else let existing = (case map_get genreMap (genre book) of
                             Some e \<Rightarrow> e
                           | None \<Rightarrow> \<lparr>s_count = 0, totalRating = Fin 0, totalPages = Fin 0\<rparr>)
           in map_set genreMap (genre book)
                \<lparr>s_count = s_count existing + 1,
                 totalRating = fadd (totalRating existing) (rating_average book),
                 totalPages = fadd (totalPages existing) (pageCount book)\<rparr>)"

definition aggregateByGenre ::
  "(number \<Rightarrow> number \<Rightarrow> number) \<Rightarrow> (number \<Rightarrow> nat \<Rightarrow> number) \<Rightarrow> BookData list
   \<Rightarrow> GenreData list" where
  "aggregateByGenre fadd fdiv data =
     map (\<lambda>(genre', stats).
            \<lparr>g_genre = genre', g_count = s_count stats,
             avgRating = fdiv (totalRating stats) (s_count stats),
             avgPageCount = fdiv (totalPages stats) (s_count stats)\<rparr>)
         (fold (genreStep fadd) data [])"

text \<open>
  \<open>slice(0, n)\<close>: a negative end counts from the end of the array, and the result never
  runs past either end. \<open>n\<close> is the integer the language makes of the argument (the
  callers pass 8, and 10 is the default).
\<close>

definition slice0 :: "int \<Rightarrow> 'a list \<Rightarrow> 'a list" where
  "slice0 n xs = (if n < 0 then take (nat (int (length xs) + n)) xs else take (nat n) xs)"

text \<open>
  \<open>sort((a, b) => b.count - a.count)\<close>: \<open>Array.prototype.sort\<close> is stable, so this is
  the stable sort by descending count, which \<open>sort_key\<close> on the negated count is.
\<close>

definition getTopGenres ::
  "(number \<Rightarrow> number \<Rightarrow> number) \<Rightarrow> (number \<Rightarrow> nat \<Rightarrow> number) \<Rightarrow> BookData list
   \<Rightarrow> int \<Rightarrow> string list" where
  "getTopGenres fadd fdiv data n =
     map g_genre (slice0 n (sort_key (\<lambda>d. - int (g_count d)) (aggregateByGenre fadd fdiv data)))"

definition filterByGenres :: "BookData list \<Rightarrow> string list \<Rightarrow> BookData list" where
  "filterByGenres data genres =
     (if length genres = 0 then data else filter (\<lambda>book. genre book \<in> set genres) data)"

subsection \<open>The flow graph\<close>

text \<open>
  \<open>key.split('|')\<close>: the pieces of a string between the occurrences of a separator
  (\<open>piece\<close> is the piece read so far). \<open>nth_opt\<close> is the read of an array position, which
  is \<open>undefined\<close> past the end.
\<close>

fun js_split :: "char \<Rightarrow> string \<Rightarrow> string \<Rightarrow> string list" where
  "js_split sep piece [] = [piece]"
| "js_split sep piece (c # cs) =
     (if c = sep then piece # js_split sep [] cs else js_split sep (piece @ [c]) cs)"

fun nth_opt :: "'a list \<Rightarrow> nat \<Rightarrow> 'a option" where
  "nth_opt [] i = None"
| "nth_opt (x # xs) 0 = Some x"
| "nth_opt (x # xs) (Suc i) = nth_opt xs i"

record SankeyAcc =
  acc_links :: "(string \<times> nat) list"
  acc_nodesMap :: "(string \<times> string) list"

definition sankeyStep :: "string list \<Rightarrow> BookData \<Rightarrow> SankeyAcc \<Rightarrow> SankeyAcc" where
  "sankeyStep topGenreList book acc =
     (if \<not> truthy_str (genre book) \<or> \<not> truthy_num (rating_average book) then acc
      else
        let processedGenre = (if genre book \<in> set topGenreList then genre book else ''Others'');
            ratingTier = getRatingTier (rating_average book);
            movieStatus = (if adapted_to_movie book then ''Adapted to Movie'' else ''Not Adapted'');
            genreId = ''g_'' @ processedGenre;
            ratingId = ''r_'' @ ratingTier;
            movieId = ''m_'' @ movieStatus;
            nodesMap1 = map_set (acc_nodesMap acc) genreId processedGenre;
            nodesMap2 = map_set nodesMap1 ratingId ratingTier;
            nodesMap3 = map_set nodesMap2 movieId movieStatus;
            link1 = genreId @ ''|'' @ ratingId;
            links1 = map_set (acc_links acc) link1
                       ((case map_get (acc_links acc) link1 of Some v \<Rightarrow> v | None \<Rightarrow> 0) + 1);
            link2 = ratingId @ ''|'' @ movieId;
            links2 = map_set links1 link2
                       ((case map_get links1 link2 of Some v \<Rightarrow> v | None \<Rightarrow> 0) + 1)
        in \<lparr>acc_links = links2, acc_nodesMap = nodesMap3\<rparr>)"

definition linkOfEntry :: "string \<times> nat \<Rightarrow> SankeyLinkDatum" where
  "linkOfEntry e =
     (let parts = js_split CHR ''|'' [] (fst e)
      in \<lparr>source = nth_opt parts 0, target = nth_opt parts 1, link_value = snd e\<rparr>)"

definition prepareSankeyData :: "BookData list \<Rightarrow> string list \<Rightarrow> SankeyData" where
  "prepareSankeyData data topGenreList =
     (let acc = fold (sankeyStep topGenreList) data \<lparr>acc_links = [], acc_nodesMap = []\<rparr>
      in \<lparr>nodes = map (\<lambda>(i, n). \<lparr>node_id = i, node_name = n\<rparr>) (acc_nodesMap acc),
          links = map linkOfEntry (acc_links acc)\<rparr>)"

section \<open>Data loader (utils/dataLoader.ts)\<close>

text \<open>
  A parsed row of the CSV file. The converter reads the columns it asserts to be present
  (\<open>d.title!\<close>) as strings and tests the others for presence first; those are optional
  here. \<open>d3.csv\<close> either fails (the file cannot be fetched or parsed) or yields the rows.
\<close>

record CsvRow =
  c_id :: string
  c_title :: string
  c_author :: string
  c_genre :: string
  c_language :: string
  c_publicationYear :: "string option"
  c_publisher :: string
  c_description :: string
  c_pageCount :: "string option"
  c_tags :: string
  c_rating_average :: "string option"
  c_most_popular_country :: string
  c_bestseller_status :: "string option"
  c_awards :: string
  c_age_category :: string
  c_adapted_to_movie :: "string option"
  c_movie_release_year :: "string option"
  c_isbn :: string

text \<open>
  The two built-ins the converter calls are parameters: \<open>toNumber\<close> is the unary plus on a
  string and \<open>toUpperCase\<close> is the string method.
\<close>

definition rowConverter :: "(string \<Rightarrow> number) \<Rightarrow> (string \<Rightarrow> string) \<Rightarrow> CsvRow \<Rightarrow> BookData" where
  "rowConverter toNumber toUpperCase d =
     \<lparr>book_id = toNumber (c_id d),
      title = c_title d,
      author = c_author d,
      genre = c_genre d,
      language = c_language d,
      publicationYear = (if truthy_opt (c_publicationYear d)
                         then (case c_publicationYear d of Some v \<Rightarrow> toNumber v | None \<Rightarrow> Fin 0)
                         else Fin 0),
      publisher = c_publisher d,
      description = c_description d,
      pageCount = (if truthy_opt (c_pageCount d)
                   then (case c_pageCount d of Some v \<Rightarrow> toNumber v | None \<Rightarrow> Fin 0)
                   else Fin 0),
      tags = c_tags d,
      rating_average = (if truthy_opt (c_rating_average d)
                        then (case c_rating_average d of Some v \<Rightarrow> toNumber v | None \<Rightarrow> Fin 0)
                        else Fin 0),
      most_popular_country = c_most_popular_country d,
      bestseller_status = (map_option toUpperCase (c_bestseller_status d) = Some ''TRUE''),
      awards = c_awards d,
      age_category = c_age_category d,
      adapted_to_movie = (map_option toUpperCase (c_adapted_to_movie d) = Some ''TRUE''),
      movie_release_year = (if truthy_opt (c_movie_release_year d)
                            then map_option toNumber (c_movie_release_year d)
                            else None),
      isbn = c_isbn d\<rparr>"

text \<open>
  \<open>loadBookData\<close>: a failure of \<open>d3.csv\<close> (\<open>Inl\<close>, with the error) is caught, logged and
  answered with the empty array; otherwise the converted rows are filtered.
\<close>

definition loadBookData ::
  "(string \<Rightarrow> number) \<Rightarrow> (string \<Rightarrow> string) \<Rightarrow> string + CsvRow list \<Rightarrow> BookData list" where
  "loadBookData toNumber toUpperCase csv =
     (case csv of
        Inl error \<Rightarrow> []
      | Inr rows \<Rightarrow>
          filter (\<lambda>d. js_gt (pageCount d) (Fin 0) \<and> js_gt (rating_average d) (Fin 0)
                        \<and> js_gt (publicationYear d) (Fin 0))
                 (map (rowConverter toNumber toUpperCase) rows))"

section \<open>Selection coordinator (App.tsx)\<close>

text \<open>
  The three pieces of React state of \<open>Layout\<close>. Each handler sets its pieces in one
  event, so a handler is a function from the state before to the state after.
\<close>

record SelectionState =
  selectedGenre :: "string option"
  brushedIds :: "number set"
  selectedSankeyNode :: "string option"

definition initialState :: SelectionState where
  "initialState = \<lparr>selectedGenre = None, brushedIds = {}, selectedSankeyNode = None\<rparr>"

definition handleGenreSelect :: "string option \<Rightarrow> SelectionState \<Rightarrow> SelectionState" where
  "handleGenreSelect g s = s\<lparr>selectedGenre := g, brushedIds := {}, selectedSankeyNode := None\<rparr>"

definition handleBrushChange :: "number set \<Rightarrow> SelectionState \<Rightarrow> SelectionState" where
  "handleBrushChange ids s = s\<lparr>brushedIds := ids, selectedSankeyNode := None\<rparr>"

definition handleNodeSelect :: "string option \<Rightarrow> SelectionState \<Rightarrow> SelectionState" where
  "handleNodeSelect nodeId s = s\<lparr>selectedSankeyNode := nodeId, brushedIds := {}\<rparr>"

text \<open>
  The click handler of a Sankey node (SankeyDiagram.tsx): it calls \<open>onNodeSelect\<close>, which
  is \<open>handleNodeSelect\<close>, with \<open>null\<close> when the clicked node is the selected one and with
  the node's id otherwise. This is the \<open>selectFlowNode\<close> transition of the coordinator.
\<close>

definition nodeClick :: "string \<Rightarrow> SelectionState \<Rightarrow> SelectionState" where
  "nodeClick d_id s =
     handleNodeSelect (if selectedSankeyNode s = Some d_id then None else Some d_id) s"

text \<open>The states the application can be in: the initial one, and any state after a handler ran.\<close>

inductive reachable :: "SelectionState \<Rightarrow> bool" where
  r_init: "reachable initialState"
| r_genre: "reachable s \<Longrightarrow> reachable (handleGenreSelect g s)"
| r_brush: "reachable s \<Longrightarrow> reachable (handleBrushChange ids s)"
| r_node: "reachable s \<Longrightarrow> reachable (handleNodeSelect nodeId s)"
| r_click: "reachable s \<Longrightarrow> reachable (nodeClick d_id s)"

text \<open>At most one highlight source is active.\<close>

definition oneSource :: "SelectionState \<Rightarrow> bool" where
  "oneSource s = (brushedIds s = {} \<or> selectedSankeyNode s = None)"

text \<open>
  The highlight set handed to the scatter plot. \<open>sankeyHighlightIds\<close> walks all books and
  collects the ids of those whose genre, rating or movie node is the selected node; a
  \<open>null\<close> or empty node id is falsy and gives the empty set. \<open>Array.includes\<close> on
  strings is string equality.
\<close>

definition sankeyHighlightIds :: "SelectionState \<Rightarrow> BookData list \<Rightarrow> string list \<Rightarrow> number set" where
  "sankeyHighlightIds s allBooks topGenres =
     (case selectedSankeyNode s of
        None \<Rightarrow> {}
      | Some node \<Rightarrow>
          if \<not> truthy_str node then {}
          else fold (\<lambda>b result.
                 let genre' = (if genre b \<in> set topGenres then genre b else ''Others'');
                     genreId = ''g_'' @ genre';
                     ratingId = ''r_'' @ getRatingTier (rating_average b);
                     movieId = ''m_'' @ (if adapted_to_movie b then ''Adapted to Movie'' else ''Not Adapted'')
                 in if node \<in> set [genreId, ratingId, movieId] then insert (book_id b) result
                    else result)
               allBooks {})"

definition scatterHighlightIds :: "SelectionState \<Rightarrow> BookData list \<Rightarrow> string list \<Rightarrow> number set" where
  "scatterHighlightIds s allBooks topGenres =
     (if brushedIds s \<noteq> {} then brushedIds s else sankeyHighlightIds s allBooks topGenres)"

section \<open>Measures the properties speak of\<close>

text \<open>How often a genre occurs in a record list.\<close>

definition genreFrequency :: "BookData list \<Rightarrow> string \<Rightarrow> nat" where
  "genreFrequency data g = length (filter (\<lambda>b. genre b = g) data)"

text \<open>
  The distinct non-empty genres of a record list in the order in which they are first
  encountered, and the same genres sorted by descending frequency with the stable sort,
  so that genres of equal frequency keep the order of their first occurrence.
\<close>

fun firstSeen :: "string list \<Rightarrow> string list \<Rightarrow> string list" where
  "firstSeen seen [] = []"
| "firstSeen seen (g # gs) =
     (if g = [] \<or> g \<in> set seen then firstSeen seen gs else g # firstSeen (seen @ [g]) gs)"

definition genresInOrder :: "BookData list \<Rightarrow> string list" where
  "genresInOrder data = firstSeen [] (map genre data)"

definition rankedGenres :: "BookData list \<Rightarrow> string list" where
  "rankedGenres data = sort_key (\<lambda>g. - int (genreFrequency data g)) (genresInOrder data)"

text \<open>The total value of the links into a node, out of a node, and out of the genre layer.\<close>

definition inflow :: "SankeyData \<Rightarrow> string \<Rightarrow> nat" where
  "inflow sd n = sum_list (map link_value (filter (\<lambda>l. target l = Some n) (links sd)))"

definition outflow :: "SankeyData \<Rightarrow> string \<Rightarrow> nat" where
  "outflow sd n = sum_list (map link_value (filter (\<lambda>l. source l = Some n) (links sd)))"

fun genreLayer :: "string option \<Rightarrow> bool" where
  "genreLayer (Some (c # d # _)) = (c = CHR ''g'' \<and> d = CHR ''_'')"
| "genreLayer _ = False"

definition genreLayerSum :: "SankeyData \<Rightarrow> nat" where
  "genreLayerSum sd = sum_list (map link_value (filter (\<lambda>l. genreLayer (source l)) (links sd)))"

text \<open>
  The records the flow graph counts (a genre, and a rating that is neither zero nor
  \<open>NaN\<close>), and the ids of the three nodes of a record.
\<close>

definition qualifies :: "BookData \<Rightarrow> bool" where
  "qualifies b = (genre b \<noteq> [] \<and> truthy_num (rating_average b))"

definition genreNode :: "string list \<Rightarrow> BookData \<Rightarrow> string" where
  "genreNode topGenreList b = ''g_'' @ (if genre b \<in> set topGenreList then genre b else ''Others'')"

definition ratingNode :: "BookData \<Rightarrow> string" where
  "ratingNode b = ''r_'' @ getRatingTier (rating_average b)"

definition movieNode :: "BookData \<Rightarrow> string" where
  "movieNode b = ''m_'' @ (if adapted_to_movie b then ''Adapted to Movie'' else ''Not Adapted'')"

text \<open>No top genre that occurs in the records contains the separator of the link keys.\<close>

definition separatorFree :: "BookData list \<Rightarrow> string list \<Rightarrow> bool" where
  "separatorFree data topGenreList =
     list_all (\<lambda>b. genre b \<in> set topGenreList \<longrightarrow> CHR ''|'' \<notin> set (genre b)) data"

section \<open>Sample inputs\<close>

definition sampleBook :: "real \<Rightarrow> string \<Rightarrow> real \<Rightarrow> real \<Rightarrow> real \<Rightarrow> bool \<Rightarrow> BookData" where
  "sampleBook i g r p y a =
     \<lparr>book_id = Fin i, title = [], author = [], genre = g, language = [],
      publicationYear = Fin y, publisher = [], description = [], pageCount = Fin p, tags = [],
      rating_average = Fin r, most_popular_country = [], bestseller_status = False, awards = [],
      age_category = [], adapted_to_movie = a, movie_release_year = None, isbn = []\<rparr>"

text \<open>The two records of the specification's scenario.\<close>

definition book1 :: BookData where
  "book1 = sampleBook 1 ''Fiction'' 4.6 200 2000 True"

definition book2 :: BookData where
  "book2 = sampleBook 2 ''Fiction'' 3.0 150 2010 False"

text \<open>Two records of a genre whose name contains the character \<open>|\<close>.\<close>

definition book3 :: BookData where
  "book3 = sampleBook 3 ''Sci-Fi|Fantasy'' 4.6 300 1999 True"

definition book4 :: BookData where
  "book4 = sampleBook 4 ''Sci-Fi|Fantasy'' 3.0 250 2005 False"

definition sampleRow :: "string \<Rightarrow> string option \<Rightarrow> string option \<Rightarrow> string option \<Rightarrow> CsvRow" where
  "sampleRow i y p r =
     \<lparr>c_id = i, c_title = [], c_author = [], c_genre = ''Fiction'', c_language = [],
      c_publicationYear = y, c_publisher = [], c_description = [], c_pageCount = p, c_tags = [],
      c_rating_average = r, c_most_popular_country = [], c_bestseller_status = Some ''false'',
      c_awards = [], c_age_category = [], c_adapted_to_movie = Some ''TRUE'',
      c_movie_release_year = None, c_isbn = []\<rparr>"

text \<open>
  Stand-ins for the addition and the division of the language, exact on the finite numbers
  (they do not round), for running \<open>getTopGenres\<close> on the sample records.
\<close>

fun sampleAdd :: "number \<Rightarrow> number \<Rightarrow> number" where
  "sampleAdd NaN _ = NaN"
| "sampleAdd _ NaN = NaN"
| "sampleAdd (Fin x) (Fin y) = Fin (x + y)"
| "sampleAdd PosInf NegInf = NaN"
| "sampleAdd NegInf PosInf = NaN"
| "sampleAdd PosInf _ = PosInf"
| "sampleAdd NegInf _ = NegInf"
| "sampleAdd (Fin x) PosInf = PosInf"
| "sampleAdd (Fin x) NegInf = NegInf"

fun sampleDiv :: "number \<Rightarrow> nat \<Rightarrow> number" where
  "sampleDiv (Fin x) n = (if n = 0 then (if x = 0 then NaN else if 0 < x then PosInf else NegInf)
                             else Fin (x / real n))"
| "sampleDiv v n = v"

text \<open>A stand-in for the unary plus, defined on the strings of the sample rows.\<close>

definition sampleToNumber :: "string \<Rightarrow> number" where
  "sampleToNumber v =
     (if v = ''1'' then Fin 1 else if v = ''2'' then Fin 2 else if v = ''200'' then Fin 200
      else if v = ''2000'' then Fin 2000 else if v = ''4.6'' then Fin 4.6
      else if v = ''-3'' then Fin (- 3) else NaN)"

text \<open>Three rows: a valid one, one with a negative page count, one without a page count.\<close>

definition goodRow :: CsvRow where
  "goodRow = sampleRow ''1'' (Some ''2000'') (Some ''200'') (Some ''4.6'')"

definition badRow :: CsvRow where
  "badRow = sampleRow ''2'' (Some ''2000'') (Some ''-3'') (Some ''4.6'')"

definition emptyRow :: CsvRow where
  "emptyRow = sampleRow ''2'' (Some ''2000'') None (Some ''4.6'')"

section \<open>Properties of the coordinator\<close>

lemma oneSource_handleGenreSelect: "oneSource (handleGenreSelect g s)"
  by (simp add: oneSource_def handleGenreSelect_def)

lemma oneSource_handleBrushChange: "oneSource (handleBrushChange ids s)"
  by (simp add: oneSource_def handleBrushChange_def)

lemma oneSource_handleNodeSelect: "oneSource (handleNodeSelect nodeId s)"
  by (simp add: oneSource_def handleNodeSelect_def)

lemma oneSource_nodeClick: "oneSource (nodeClick d_id s)"
  unfolding nodeClick_def by (rule oneSource_handleNodeSelect)

text \<open>
  Claim C2. In every state reachable from the initial state by any sequence of the
  transitions, with any arguments, the brush set is empty or no node is selected; a brush
  clears the node selection, a node selection (direct or by click) clears the brush, and a
  genre selection clears both.
\<close>

theorem reachable_one_source:
  "(reachable s \<longrightarrow> oneSource s)
   \<and> selectedSankeyNode (handleBrushChange ids t) = None
   \<and> brushedIds (handleNodeSelect nodeId t) = {}
   \<and> brushedIds (nodeClick d_id t) = {}
   \<and> brushedIds (handleGenreSelect g t) = {}
   \<and> selectedSankeyNode (handleGenreSelect g t) = None"
proof -
  have "oneSource s" if "reachable s"
    using that
  proof (induction rule: reachable.induct)
    case r_init
    show ?case by (simp add: oneSource_def initialState_def)
  next
    case (r_genre s g)
    show ?case by (rule oneSource_handleGenreSelect)
  next
    case (r_brush s ids)
    show ?case by (rule oneSource_handleBrushChange)
  next
    case (r_node s nodeId)
    show ?case by (rule oneSource_handleNodeSelect)
  next
    case (r_click s d_id)
    show ?case by (rule oneSource_nodeClick)
  qed
  then show ?thesis
    by (simp add: handleBrushChange_def handleNodeSelect_def nodeClick_def handleGenreSelect_def)
qed

theorem reachable_one_source_witness:
  "reachable (handleNodeSelect (Some ''g_Fiction'') (handleBrushChange {Fin 1} initialState))
   \<and> oneSource (handleNodeSelect (Some ''g_Fiction'') (handleBrushChange {Fin 1} initialState))
   \<and> brushedIds (handleNodeSelect (Some ''g_Fiction'') (handleBrushChange {Fin 1} initialState)) = {}
   \<and> selectedSankeyNode (handleNodeSelect (Some ''g_Fiction'') (handleBrushChange {Fin 1} initialState))
       = Some ''g_Fiction''"
proof -
  let ?s = "handleNodeSelect (Some ''g_Fiction'') (handleBrushChange {Fin 1} initialState)"
  have r: "reachable ?s"
    by (intro reachable.intros)
  from reachable_one_source [of ?s] r have "oneSource ?s"
    by blast
  with r show ?thesis
    by (simp add: handleNodeSelect_def)
qed

text \<open>
  \<open>handleNodeSelect\<close> itself stores the id it is given; the toggle is the click handler's.
\<close>

lemma handleNodeSelect_stores:
  "selectedSankeyNode (handleNodeSelect (Some X) (handleNodeSelect (Some X) s)) = Some X"
  by (simp add: handleNodeSelect_def)

text \<open>
  Claim C3, as stated, at a state in which the clicked node is already selected: the
  first click clears the selection and the second selects the node again, so two clicks
  do not end with no node selected.
\<close>

theorem toggle_twice_counterexample:
  "selectedSankeyNode
     (nodeClick ''g_Fiction'' (nodeClick ''g_Fiction'' (nodeClick ''g_Fiction'' initialState)))
   = Some ''g_Fiction''"
  by (simp add: nodeClick_def handleNodeSelect_def initialState_def)

text \<open>
  Claim C3, amended. A click on node \<open>X\<close> clears the selection when \<open>X\<close> is the selected
  node, and otherwise selects \<open>X\<close>; in both cases the brush is cleared. Two clicks on \<open>X\<close>
  end with no node selected exactly when \<open>X\<close> was not selected before; when it was, they
  end with \<open>X\<close> selected again.
\<close>

theorem toggle_law:
  "(selectedSankeyNode s = Some X \<longrightarrow>
      selectedSankeyNode (nodeClick X s) = None
      \<and> selectedSankeyNode (nodeClick X (nodeClick X s)) = Some X)
   \<and> (selectedSankeyNode s \<noteq> Some X \<longrightarrow>
      selectedSankeyNode (nodeClick X s) = Some X
      \<and> selectedSankeyNode (nodeClick X (nodeClick X s)) = None)
   \<and> brushedIds (nodeClick X s) = {}"
  by (simp add: nodeClick_def handleNodeSelect_def)

theorem toggle_law_witness:
  "(selectedSankeyNode initialState \<noteq> Some ''g_Fiction''
    \<and> selectedSankeyNode (nodeClick ''g_Fiction'' initialState) = Some ''g_Fiction''
    \<and> selectedSankeyNode (nodeClick ''g_Fiction'' (nodeClick ''g_Fiction'' initialState)) = None)
   \<and> (selectedSankeyNode (handleNodeSelect (Some ''g_Fiction'') initialState) = Some ''g_Fiction''
    \<and> selectedSankeyNode (nodeClick ''g_Fiction'' (handleNodeSelect (Some ''g_Fiction'') initialState))
        = None
    \<and> selectedSankeyNode
         (nodeClick ''g_Fiction''
           (nodeClick ''g_Fiction'' (handleNodeSelect (Some ''g_Fiction'') initialState)))
        = Some ''g_Fiction'')"
proof -
  have a: "selectedSankeyNode initialState \<noteq> Some ''g_Fiction''"
    by (simp add: initialState_def)
  have b: "selectedSankeyNode (handleNodeSelect (Some ''g_Fiction'') initialState) = Some ''g_Fiction''"
    by (simp add: handleNodeSelect_def)
  show ?thesis
    using a b toggle_law [of initialState "''g_Fiction''"]
      toggle_law [of "handleNodeSelect (Some ''g_Fiction'') initialState" "''g_Fiction''"]
    by blast
qed

text \<open>
  Claim C4. Whatever the state before, after \<open>handleGenreSelect g\<close> the selected genre is
  \<open>g\<close> (also for \<open>null\<close>), the brush set is empty and no node is selected; running the
  handler again with the same \<open>g\<close> changes nothing.
\<close>

theorem handleGenreSelect_clears:
  "selectedGenre (handleGenreSelect g s) = g
   \<and> brushedIds (handleGenreSelect g s) = {}
   \<and> selectedSankeyNode (handleGenreSelect g s) = None
   \<and> handleGenreSelect g (handleGenreSelect g s) = handleGenreSelect g s"
  by (simp add: handleGenreSelect_def)

section \<open>Properties of the highlight set\<close>

lemma fold_insert_if:
  "fold (\<lambda>b result. if P b then insert (f b) result else result) xs A
   = A \<union> {f b | b. b \<in> set xs \<and> P b}"
  by (induction xs arbitrary: A) auto

lemma sankeyHighlightIds_set:
  "sankeyHighlightIds s allBooks topGenres =
     (case selectedSankeyNode s of
        None \<Rightarrow> {}
      | Some node \<Rightarrow>
          {book_id b | b. b \<in> set allBooks \<and>
             node \<in> {''g_'' @ (if genre b \<in> set topGenres then genre b else ''Others''),
                      ''r_'' @ getRatingTier (rating_average b),
                      ''m_'' @ (if adapted_to_movie b then ''Adapted to Movie'' else ''Not Adapted'')}})"
proof (cases "selectedSankeyNode s")
  case None
  then show ?thesis by (simp add: sankeyHighlightIds_def)
next
  case (Some node)
  show ?thesis
  proof (cases "node = []")
    case True
    with Some show ?thesis by (simp add: sankeyHighlightIds_def truthy_str_def)
  next
    case False
    with Some show ?thesis
      by (simp add: sankeyHighlightIds_def truthy_str_def Let_def fold_insert_if)
  qed
qed

text \<open>
  Claim C1. The highlight set is the brush set itself whenever that is non-empty;
  otherwise, with a node selected, it is exactly the set of ids of the records whose genre
  node (the genre, or \<open>Others\<close> when it is not a top genre), rating node or movie node is
  the selected node; otherwise it is empty. For the initial state it is empty.
\<close>

theorem scatterHighlightIds_spec:
  "scatterHighlightIds s allBooks topGenres =
     (if brushedIds s \<noteq> {} then brushedIds s
      else case selectedSankeyNode s of
        None \<Rightarrow> {}
      | Some node \<Rightarrow>
          {book_id b | b. b \<in> set allBooks \<and>
             node \<in> {''g_'' @ (if genre b \<in> set topGenres then genre b else ''Others''),
                      ''r_'' @ getRatingTier (rating_average b),
                      ''m_'' @ (if adapted_to_movie b then ''Adapted to Movie'' else ''Not Adapted'')}})
   \<and> scatterHighlightIds initialState allBooks topGenres = {}"
  by (simp add: scatterHighlightIds_def sankeyHighlightIds_set initialState_def)

lemma book_ids: "book_id book1 = Fin 1" "book_id book2 = Fin 2"
  by (simp_all add: book1_def book2_def sampleBook_def)

text \<open>
  Claim C9. When the brush set contains ids and none of them is the id of a record of
  the current list, the highlight computation (a total function, with no failing branch)
  returns a set that contains no id of any record of that list, whatever list of books
  and top genres it is given.
\<close>

theorem stale_brush_matches_nothing:
  assumes "brushedIds s \<noteq> {}"
    and "\<forall>i \<in> brushedIds s. i \<notin> book_id ` set current"
  shows "scatterHighlightIds s allBooks topGenres \<inter> book_id ` set current = {}"
  using assms by (auto simp: scatterHighlightIds_def)

theorem stale_brush_matches_nothing_witness:
  "brushedIds (handleBrushChange {Fin 7} initialState) \<noteq> {}
   \<and> Fin 7 \<notin> book_id ` set [book1, book2]
   \<and> scatterHighlightIds (handleBrushChange {Fin 7} initialState) [book1, book2] [''Fiction'']
       \<inter> book_id ` set [book1, book2] = {}"
proof -
  let ?s = "handleBrushChange {Fin 7} initialState"
  have a: "brushedIds ?s \<noteq> {}"
    by (simp add: handleBrushChange_def)
  have b: "\<forall>i \<in> brushedIds ?s. i \<notin> book_id ` set [book1, book2]"
    by (simp add: handleBrushChange_def book_ids)
  from stale_brush_matches_nothing [OF a b, of "[book1, book2]" "[''Fiction'']"] a b
  show ?thesis by (simp add: handleBrushChange_def)
qed

text \<open>The highlight set on the records of the scenario.\<close>

lemma scenario_highlight:
  "scatterHighlightIds (handleNodeSelect (Some ''g_Fiction'') initialState) [book1, book2] [''Fiction'']
     = {Fin 1, Fin 2}"
  "scatterHighlightIds (handleNodeSelect (Some ''r_Acclaimed (4.5+)'') initialState) [book1, book2]
     [''Fiction''] = {Fin 1}"
  "scatterHighlightIds (handleBrushChange {Fin 2} initialState) [book1, book2] [''Fiction'']
     = {Fin 2}"
  by (auto simp: scatterHighlightIds_def sankeyHighlightIds_def handleNodeSelect_def
      handleBrushChange_def initialState_def truthy_str_def book1_def book2_def sampleBook_def
      getRatingTier_def)

section \<open>Properties of the rating tiers\<close>

text \<open>
  Claim C6. A rating of the data model (a number from 0 to 5) falls in exactly one tier,
  with the lower boundary of each tier included: Acclaimed on [4.5, 5], Highly Rated on
  [4.0, 4.5), Well Rated on [3.5, 4.0), Average on [0, 3.5). The ratings 4.6 and 3.0 are
  Acclaimed and Average.
\<close>

theorem getRatingTier_tiers:
  assumes "0 \<le> r" and "r \<le> 5"
  shows "(getRatingTier (Fin r) = ''Acclaimed (4.5+)'' \<longleftrightarrow> 4.5 \<le> r \<and> r \<le> 5)
       \<and> (getRatingTier (Fin r) = ''Highly Rated (4.0-4.5)'' \<longleftrightarrow> 4 \<le> r \<and> r < 4.5)
       \<and> (getRatingTier (Fin r) = ''Well Rated (3.5-4.0)'' \<longleftrightarrow> 3.5 \<le> r \<and> r < 4)
       \<and> (getRatingTier (Fin r) = ''Average (< 3.5)'' \<longleftrightarrow> 0 \<le> r \<and> r < 3.5)
       \<and> getRatingTier (Fin 4.6) = ''Acclaimed (4.5+)''
       \<and> getRatingTier (Fin 3.0) = ''Average (< 3.5)''"
  using assms by (simp add: getRatingTier_def)

theorem getRatingTier_tiers_witness:
  "(0::real) \<le> 4.6 \<and> (4.6::real) \<le> 5 \<and> getRatingTier (Fin 4.6) = ''Acclaimed (4.5+)''
   \<and> getRatingTier (Fin 4.6) \<noteq> ''Average (< 3.5)''"
proof -
  have a: "(0::real) \<le> 4.6" and b: "(4.6::real) \<le> 5" by simp_all
  from getRatingTier_tiers [OF a b] show ?thesis by simp
qed

text \<open>
  Outside the range of the data model the function still answers: everything from 4.5
  upwards is Acclaimed and everything below 3.5, and \<open>NaN\<close>, is Average.
\<close>

lemma getRatingTier_unbounded:
  "(getRatingTier (Fin r) = ''Acclaimed (4.5+)'' \<longleftrightarrow> 4.5 \<le> r)
   \<and> (getRatingTier (Fin r) = ''Highly Rated (4.0-4.5)'' \<longleftrightarrow> 4 \<le> r \<and> r < 4.5)
   \<and> (getRatingTier (Fin r) = ''Well Rated (3.5-4.0)'' \<longleftrightarrow> 3.5 \<le> r \<and> r < 4)
   \<and> (getRatingTier (Fin r) = ''Average (< 3.5)'' \<longleftrightarrow> r < 3.5)"
  by (simp add: getRatingTier_def)

lemma getRatingTier_outside:
  "getRatingTier (Fin 6) = ''Acclaimed (4.5+)''"
  "getRatingTier PosInf = ''Acclaimed (4.5+)''"
  "getRatingTier (Fin (- 1)) = ''Average (< 3.5)''"
  "getRatingTier NegInf = ''Average (< 3.5)''"
  "getRatingTier NaN = ''Average (< 3.5)''"
  by (simp_all add: getRatingTier_def)

section \<open>Properties of the loader\<close>

text \<open>
  Claim C7. Every record the loader returns has a positive page count, a positive
  average rating and a positive publication year; a record that fails one of the three is
  not in the loader's output. This holds for every outcome of reading the file and for
  every behaviour of the two built-ins.
\<close>

theorem loadBookData_positive:
  "(\<forall>d \<in> set (loadBookData toNumber toUpperCase csv).
      js_gt (pageCount d) (Fin 0) \<and> js_gt (rating_average d) (Fin 0)
      \<and> js_gt (publicationYear d) (Fin 0))
   \<and> (\<not> (js_gt (pageCount b) (Fin 0) \<and> js_gt (rating_average b) (Fin 0)
          \<and> js_gt (publicationYear b) (Fin 0))
        \<longrightarrow> b \<notin> set (loadBookData toNumber toUpperCase csv))"
  by (cases csv) (auto simp: loadBookData_def)

lemma load_sample:
  "loadBookData sampleToNumber (\<lambda>s. s) (Inr [goodRow, badRow, emptyRow])
   = [rowConverter sampleToNumber (\<lambda>s. s) goodRow]"
  by (simp add: loadBookData_def rowConverter_def goodRow_def badRow_def emptyRow_def
      sampleRow_def sampleToNumber_def truthy_str_def)

theorem loadBookData_positive_witness:
  "rowConverter sampleToNumber (\<lambda>s. s) goodRow
     \<in> set (loadBookData sampleToNumber (\<lambda>s. s) (Inr [goodRow, badRow, emptyRow]))
   \<and> js_gt (pageCount (rowConverter sampleToNumber (\<lambda>s. s) goodRow)) (Fin 0)
   \<and> js_gt (rating_average (rowConverter sampleToNumber (\<lambda>s. s) goodRow)) (Fin 0)
   \<and> js_gt (publicationYear (rowConverter sampleToNumber (\<lambda>s. s) goodRow)) (Fin 0)
   \<and> \<not> js_gt (pageCount (rowConverter sampleToNumber (\<lambda>s. s) badRow)) (Fin 0)
   \<and> rowConverter sampleToNumber (\<lambda>s. s) badRow
     \<notin> set (loadBookData sampleToNumber (\<lambda>s. s) (Inr [goodRow, badRow, emptyRow]))"
proof -
  let ?out = "loadBookData sampleToNumber (\<lambda>s. s) (Inr [goodRow, badRow, emptyRow])"
  have m: "rowConverter sampleToNumber (\<lambda>s. s) goodRow \<in> set ?out"
    by (simp add: load_sample)
  have n: "\<not> js_gt (pageCount (rowConverter sampleToNumber (\<lambda>s. s) badRow)) (Fin 0)"
    by (simp add: rowConverter_def badRow_def sampleRow_def sampleToNumber_def truthy_str_def)
  from loadBookData_positive
    [of sampleToNumber "\<lambda>s. s" "Inr [goodRow, badRow, emptyRow]"
        "rowConverter sampleToNumber (\<lambda>s. s) badRow"] m n
  show ?thesis by blast
qed

section \<open>Properties of the top genres\<close>

lemma map_set_keys:
  "map fst (map_set m k v) = (if k \<in> fst ` set m then map fst m else map fst m @ [k])"
  by (induction m) force+

lemma map_of_map_set: "map_of (map_set m k v) = (map_of m)(k \<mapsto> v)"
  by (induction m) auto

lemma distinct_map_set: "distinct (map fst m) \<Longrightarrow> distinct (map fst (map_set m k v))"
  by (simp add: map_set_keys)

lemma genreStep_keys:
  "map fst (genreStep fadd b m) =
     (if genre b = [] \<or> genre b \<in> fst ` set m then map fst m else map fst m @ [genre b])"
  by (simp add: genreStep_def truthy_str_def Let_def map_set_keys)

lemma fold_genreStep_distinct:
  "distinct (map fst m) \<Longrightarrow> distinct (map fst (fold (genreStep fadd) data m))"
  by (induction data arbitrary: m) (simp_all add: genreStep_keys)

lemma fold_genreStep_keyset:
  "set (map fst (fold (genreStep fadd) data m)) = fst ` set m \<union> {g. g \<noteq> [] \<and> g \<in> genre ` set data}"
proof (induction data arbitrary: m)
  case Nil
  show ?case by simp
next
  case (Cons b data)
  have "set (map fst (genreStep fadd b m)) = fst ` set m \<union> (if genre b = [] then {} else {genre b})"
    by (auto simp: genreStep_keys)
  then show ?case
    using Cons.IH [of "genreStep fadd b m"] by auto
qed

lemma genreFrequency_Cons:
  "genreFrequency (b # data) g = (if genre b = g then 1 else 0) + genreFrequency data g"
  by (simp add: genreFrequency_def)

lemma genreFrequency_Nil: "genreFrequency [] g = 0"
  by (simp add: genreFrequency_def)

lemma genreFrequency_0: "g \<notin> genre ` set data \<Longrightarrow> genreFrequency data g = 0"
  by (induction data) (auto simp: genreFrequency_Cons genreFrequency_Nil)

lemma genreStep_count:
  "map_option s_count (map_of (genreStep fadd b m) g) =
     (if genre b \<noteq> [] \<and> genre b = g
      then Some ((case map_of m g of Some e \<Rightarrow> s_count e | None \<Rightarrow> 0) + 1)
      else map_option s_count (map_of m g))"
  by (auto simp: genreStep_def truthy_str_def Let_def map_of_map_set map_get_def split: option.splits)

lemma fold_genreStep_count:
  "map_option s_count (map_of (fold (genreStep fadd) data m) g) =
     (if g \<noteq> [] \<and> g \<in> genre ` set data
      then Some ((case map_of m g of Some e \<Rightarrow> s_count e | None \<Rightarrow> 0) + genreFrequency data g)
      else map_option s_count (map_of m g))"
proof (induction data arbitrary: m)
  case Nil
  show ?case by simp
next
  case (Cons b data)
  show ?case
  proof (cases "genre b \<noteq> [] \<and> genre b = g")
    case True
    then have gb: "genre b = g" and gne: "g \<noteq> []"
      by auto
    have step: "map_option s_count (map_of (genreStep fadd b m) g)
        = Some ((case map_of m g of Some e \<Rightarrow> s_count e | None \<Rightarrow> 0) + 1)"
      using gb gne by (simp add: genreStep_count)
    then obtain e where e: "map_of (genreStep fadd b m) g = Some e"
      and se: "s_count e = (case map_of m g of Some e \<Rightarrow> s_count e | None \<Rightarrow> 0) + 1"
      by (cases "map_of (genreStep fadd b m) g") auto
    show ?thesis
      using gb gne Cons.IH [of "genreStep fadd b m"] e se
      by (simp add: genreFrequency_Cons genreFrequency_0)
  next
    case False
    then have step: "map_option s_count (map_of (genreStep fadd b m) g) = map_option s_count (map_of m g)"
      by (auto simp: genreStep_count)
    then have c: "(case map_of (genreStep fadd b m) g of Some e \<Rightarrow> s_count e | None \<Rightarrow> 0)
        = (case map_of m g of Some e \<Rightarrow> s_count e | None \<Rightarrow> 0)"
      by (auto split: option.splits)
    show ?thesis
      using False Cons.IH [of "genreStep fadd b m"] step c
      by (auto simp: genreFrequency_Cons)
  qed
qed

lemma aggregateByGenre_genres:
  "map g_genre (aggregateByGenre fadd fdiv data) = map fst (fold (genreStep fadd) data [])"
  by (simp add: aggregateByGenre_def case_prod_unfold comp_def)

lemma aggregateByGenre_distinct: "distinct (map g_genre (aggregateByGenre fadd fdiv data))"
  by (simp add: aggregateByGenre_genres fold_genreStep_distinct)

lemma aggregateByGenre_set:
  "set (map g_genre (aggregateByGenre fadd fdiv data)) = {g. g \<noteq> [] \<and> g \<in> genre ` set data}"
  unfolding aggregateByGenre_genres fold_genreStep_keyset by simp

lemma aggregateByGenre_count:
  assumes "d \<in> set (aggregateByGenre fadd fdiv data)"
  shows "g_count d = genreFrequency data (g_genre d)"
proof -
  from assms obtain k st where kst: "(k, st) \<in> set (fold (genreStep fadd) data [])"
    and d: "g_genre d = k" "g_count d = s_count st"
    by (auto simp: aggregateByGenre_def)
  have "distinct (map fst (fold (genreStep fadd) data []))"
    by (simp add: fold_genreStep_distinct)
  with kst have "map_of (fold (genreStep fadd) data []) k = Some st"
    by simp
  then have "map_option s_count (map_of (fold (genreStep fadd) data []) k) = Some (s_count st)"
    by simp
  then have "Some (s_count st) = Some (genreFrequency data k)"
    unfolding fold_genreStep_count by (simp split: if_splits)
  with d show ?thesis by simp
qed

lemma ranked_sorted:
  "sorted_wrt (\<lambda>a b. genreFrequency data b \<le> genreFrequency data a)
     (map g_genre (sort_key (\<lambda>d. - int (g_count d)) (aggregateByGenre fadd fdiv data)))"
proof -
  let ?ys = "sort_key (\<lambda>d. - int (g_count d)) (aggregateByGenre fadd fdiv data)"
  have "sorted (map (\<lambda>d. - int (g_count d)) ?ys)"
    by (rule sorted_sort_key)
  then have "sorted_wrt (\<lambda>x y. - int (g_count x) \<le> - int (g_count y)) ?ys"
    by (simp add: sorted_map)
  then have "sorted_wrt (\<lambda>x y. genreFrequency data (g_genre y) \<le> genreFrequency data (g_genre x)) ?ys"
  proof (rule sorted_wrt_mono_rel [rotated])
    fix x y
    assume "x \<in> set ?ys" "y \<in> set ?ys" "- int (g_count x) \<le> - int (g_count y)"
    then show "genreFrequency data (g_genre y) \<le> genreFrequency data (g_genre x)"
      by (simp add: aggregateByGenre_count)
  qed
  then show ?thesis
    by (simp add: sorted_wrt_map)
qed

lemma ranked_distinct:
  "distinct (map g_genre (sort_key (\<lambda>d. - int (g_count d)) (aggregateByGenre fadd fdiv data)))"
proof -
  have "distinct (map g_genre (aggregateByGenre fadd fdiv data))"
    by (rule aggregateByGenre_distinct)
  then have "distinct (aggregateByGenre fadd fdiv data) \<and> inj_on g_genre (set (aggregateByGenre fadd fdiv data))"
    by (simp add: distinct_map)
  then show ?thesis
    by (simp add: distinct_map)
qed

lemma ranked_set:
  "set (map g_genre (sort_key (\<lambda>d. - int (g_count d)) (aggregateByGenre fadd fdiv data)))
   = {g. g \<noteq> [] \<and> g \<in> genre ` set data}"
  using aggregateByGenre_set [where data = data and fadd = fadd and fdiv = fdiv] by simp

lemma slice0_map: "map f (slice0 n xs) = slice0 n (map f xs)"
  by (simp add: slice0_def take_map)

text \<open>
  The keys of the genre map are the genres in the order of their first occurrence, so the
  ranking the function slices is \<open>rankedGenres\<close>.
\<close>

lemma fold_genreStep_keys:
  "map fst (fold (genreStep fadd) data m) = map fst m @ firstSeen (map fst m) (map genre data)"
proof (induction data arbitrary: m)
  case Nil
  show ?case by simp
next
  case (Cons b data)
  show ?case
  proof (cases "genre b = [] \<or> genre b \<in> fst ` set m")
    case True
    then have "map fst (genreStep fadd b m) = map fst m"
      by (simp add: genreStep_keys)
    with True Cons.IH [of "genreStep fadd b m"] show ?thesis
      by auto
  next
    case False
    then have "map fst (genreStep fadd b m) = map fst m @ [genre b]"
      by (simp add: genreStep_keys)
    with False Cons.IH [of "genreStep fadd b m"] show ?thesis
      by auto
  qed
qed

lemma aggregateByGenre_order: "map g_genre (aggregateByGenre fadd fdiv data) = genresInOrder data"
  by (simp add: aggregateByGenre_genres fold_genreStep_keys genresInOrder_def)

lemma map_insort_key:
  assumes "f x = h (g x)" and "\<forall>y \<in> set ys. f y = h (g y)"
  shows "map g (insort_key f x ys) = insort_key h (g x) (map g ys)"
  using assms by (induction ys) auto

lemma map_sort_key:
  assumes "\<forall>y \<in> set xs. f y = h (g y)"
  shows "map g (sort_key f xs) = sort_key h (map g xs)"
  using assms by (induction xs) (simp_all add: map_insort_key)

lemma ranked_explicit:
  "map g_genre (sort_key (\<lambda>d. - int (g_count d)) (aggregateByGenre fadd fdiv data)) = rankedGenres data"
proof -
  have "\<forall>d \<in> set (aggregateByGenre fadd fdiv data).
      - int (g_count d) = (\<lambda>g. - int (genreFrequency data g)) (g_genre d)"
    by (simp add: aggregateByGenre_count)
  then have "map g_genre (sort_key (\<lambda>d. - int (g_count d)) (aggregateByGenre fadd fdiv data))
      = sort_key (\<lambda>g. - int (genreFrequency data g)) (map g_genre (aggregateByGenre fadd fdiv data))"
    by (rule map_sort_key)
  then show ?thesis
    by (simp add: rankedGenres_def aggregateByGenre_order)
qed

lemma getTopGenres_explicit: "getTopGenres fadd fdiv data n = slice0 n (rankedGenres data)"
  by (simp add: getTopGenres_def slice0_map ranked_explicit)

lemma ranked_ties:
  "filter (\<lambda>g. genreFrequency data g = k) (rankedGenres data)
   = filter (\<lambda>g. genreFrequency data g = k) (genresInOrder data)"
  using sort_key_stable [of "\<lambda>g. - int (genreFrequency data g)" "- int k" "genresInOrder data"]
  by (simp add: rankedGenres_def)

text \<open>
  Claim C8. For every record list and every count \<open>n\<close> (\<open>n \<ge> 0\<close>), \<open>getTopGenres\<close> returns
  at most \<open>n\<close> names: the first \<open>n\<close> entries of the ranking. The ranking lists the distinct
  non-empty genres of the records, each once, and no genre comes before a more frequent
  one; genres of equal frequency stand in the order of their first occurrence in the
  records. The result is the slice of the ranking for every \<open>n\<close>, so it is a prefix and a
  subsequence of it, and a function of the records and \<open>n\<close> alone: it does not depend on
  how the language adds and divides the numbers that are averaged.
\<close>

theorem getTopGenres_ranked:
  "(0 \<le> n \<longrightarrow> length (getTopGenres fadd fdiv R n) \<le> nat n
      \<and> getTopGenres fadd fdiv R n = take (nat n) (rankedGenres R))
   \<and> getTopGenres fadd fdiv R n = slice0 n (rankedGenres R)
   \<and> prefix (getTopGenres fadd fdiv R n) (rankedGenres R)
   \<and> subseq (getTopGenres fadd fdiv R n) (rankedGenres R)
   \<and> distinct (rankedGenres R)
   \<and> set (rankedGenres R) = {g. g \<noteq> [] \<and> g \<in> genre ` set R}
   \<and> sorted_wrt (\<lambda>a b. genreFrequency R b \<le> genreFrequency R a) (rankedGenres R)
   \<and> filter (\<lambda>g. genreFrequency R g = k) (rankedGenres R)
       = filter (\<lambda>g. genreFrequency R g = k) (genresInOrder R)"
proof -
  have len: "0 \<le> n \<longrightarrow> length (getTopGenres fadd fdiv R n) \<le> nat n
      \<and> getTopGenres fadd fdiv R n = take (nat n) (rankedGenres R)"
    by (simp add: getTopGenres_explicit slice0_def)
  have sl: "getTopGenres fadd fdiv R n = slice0 n (rankedGenres R)"
    by (rule getTopGenres_explicit)
  have pre: "prefix (getTopGenres fadd fdiv R n) (rankedGenres R)"
    by (simp add: getTopGenres_explicit slice0_def take_is_prefix)
  then have sub: "subseq (getTopGenres fadd fdiv R n) (rankedGenres R)"
    by (rule prefix_imp_subseq)
  from len sl pre sub
    ranked_distinct [where data = R and fadd = fadd and fdiv = fdiv]
    ranked_set [where data = R and fadd = fadd and fdiv = fdiv]
    ranked_sorted [where data = R and fadd = fadd and fdiv = fdiv]
    ranked_ties [of R k]
  show ?thesis
    unfolding ranked_explicit by blast
qed

lemma top_sample:
  "getTopGenres fadd fdiv [book1, book3, book4] n =
     slice0 n [''Sci-Fi|Fantasy'', ''Fiction'']"
  by (simp add: getTopGenres_def slice0_map aggregateByGenre_def genreStep_def map_get_def
      truthy_str_def book1_def book3_def book4_def sampleBook_def)

theorem getTopGenres_ranked_witness:
  "(0::int) \<le> 1 \<and> length (getTopGenres sampleAdd sampleDiv [book1, book3, book4] 1) \<le> nat 1
   \<and> getTopGenres sampleAdd sampleDiv [book1, book3, book4] 1 = [''Sci-Fi|Fantasy'']"
proof -
  have a: "(0::int) \<le> 1" by simp
  from getTopGenres_ranked [where n = 1 and R = "[book1, book3, book4]" and fadd = sampleAdd and fdiv = sampleDiv] a
  have "length (getTopGenres sampleAdd sampleDiv [book1, book3, book4] 1) \<le> nat 1"
    by blast
  with a show ?thesis
    by (simp add: top_sample slice0_def)
qed

text \<open>With a negative end the slice drops entries from the end of the ranking.\<close>

lemma getTopGenres_negative_end:
  "getTopGenres fadd fdiv [book1, book3, book4] (- 1) = [''Sci-Fi|Fantasy'']"
  by (simp add: top_sample slice0_def)

section \<open>Properties of the flow graph\<close>

text \<open>
  What \<open>prepareSankeyData\<close> guarantees on every input, and what it guarantees when no top
  genre of the records contains the character \<open>|\<close>, which the function uses to join the
  two node ids of a link into one key and to split the key again.
\<close>

subsection \<open>Splitting a key\<close>

lemma js_split_first:
  "nth_opt (js_split sep piece s) 0 = Some (piece @ takeWhile (\<lambda>c. c \<noteq> sep) s)"
  by (induction s arbitrary: piece) simp_all

lemma js_split_free: "sep \<notin> set s \<Longrightarrow> js_split sep piece s = [piece @ s]"
  by (induction s arbitrary: piece) auto

lemma js_split_at:
  "sep \<notin> set a \<Longrightarrow> js_split sep piece (a @ sep # c) = (piece @ a) # js_split sep [] c"
  by (induction a arbitrary: piece) auto

lemma js_split_pair:
  "sep \<notin> set a \<Longrightarrow> sep \<notin> set c \<Longrightarrow> js_split sep [] (a @ sep # c) = [a, c]"
  by (simp add: js_split_at js_split_free)

lemma tier_no_separator: "CHR ''|'' \<notin> set (getRatingTier r)"
  by (simp add: getRatingTier_def)

lemma ratingNode_no_separator: "CHR ''|'' \<notin> set (ratingNode b)"
  by (simp add: ratingNode_def tier_no_separator)

lemma movieNode_no_separator: "CHR ''|'' \<notin> set (movieNode b)"
  by (simp add: movieNode_def)

lemma linkOfEntry_pair:
  "CHR ''|'' \<notin> set a \<Longrightarrow> CHR ''|'' \<notin> set c \<Longrightarrow>
   linkOfEntry (a @ ''|'' @ c, v) = \<lparr>source = Some a, target = Some c, link_value = v\<rparr>"
  by (simp add: linkOfEntry_def js_split_pair)

lemma linkOfEntry_source:
  "source (linkOfEntry e) = Some (takeWhile (\<lambda>c. c \<noteq> CHR ''|'') (fst e))"
  by (simp add: linkOfEntry_def Let_def js_split_first)

lemma linkOfEntry_value: "link_value (linkOfEntry e) = snd e"
  by (simp add: linkOfEntry_def Let_def)

subsection \<open>One step of the loop\<close>

lemma sankeyStep_skip: "\<not> qualifies b \<Longrightarrow> sankeyStep tg b acc = acc"
  by (auto simp: sankeyStep_def qualifies_def truthy_str_def)

lemma sankeyStep_links:
  "qualifies b \<Longrightarrow>
   acc_links (sankeyStep tg b acc) =
     (let k1 = genreNode tg b @ ''|'' @ ratingNode b;
          l1 = map_set (acc_links acc) k1
                 ((case map_get (acc_links acc) k1 of Some v \<Rightarrow> v | None \<Rightarrow> 0) + 1);
          k2 = ratingNode b @ ''|'' @ movieNode b
      in map_set l1 k2 ((case map_get l1 k2 of Some v \<Rightarrow> v | None \<Rightarrow> 0) + 1))"
  by (simp add: sankeyStep_def qualifies_def truthy_str_def Let_def genreNode_def ratingNode_def
      movieNode_def)

lemma map_set_bump_sum:
  "sum_list (map snd (filter (\<lambda>e. P (fst e))
      (map_set m k ((case map_get m k of Some v \<Rightarrow> v | None \<Rightarrow> 0) + (1::nat)))))
   = sum_list (map snd (filter (\<lambda>e. P (fst e)) m)) + (if P k then 1 else 0)"
  by (induction m) (auto simp: map_get_def)

lemma sankeyStep_sum:
  "sum_list (map snd (filter (\<lambda>e. P (fst e)) (acc_links (sankeyStep tg b acc))))
   = sum_list (map snd (filter (\<lambda>e. P (fst e)) (acc_links acc)))
     + (if qualifies b
        then (if P (genreNode tg b @ ''|'' @ ratingNode b) then 1 else 0)
             + (if P (ratingNode b @ ''|'' @ movieNode b) then 1 else 0)
        else 0)"
proof (cases "qualifies b")
  case True
  then show ?thesis
    by (simp only: sankeyStep_links Let_def map_set_bump_sum if_True add.assoc)
next
  case False
  then show ?thesis by (simp add: sankeyStep_skip)
qed

lemma fold_sankeyStep_sum:
  "sum_list (map snd (filter (\<lambda>e. P (fst e)) (acc_links (fold (sankeyStep tg) data acc))))
   = sum_list (map snd (filter (\<lambda>e. P (fst e)) (acc_links acc)))
     + sum_list (map (\<lambda>b. if qualifies b
        then (if P (genreNode tg b @ ''|'' @ ratingNode b) then 1 else 0)
             + (if P (ratingNode b @ ''|'' @ movieNode b) then 1 else 0)
        else 0) data)"
  by (induction data arbitrary: acc) (simp_all add: sankeyStep_sum add.assoc)

lemma links_sum:
  "sum_list (map link_value (filter (\<lambda>l. Q l) (links (prepareSankeyData data tg))))
   = sum_list (map snd (filter (\<lambda>e. Q (linkOfEntry e))
       (acc_links (fold (sankeyStep tg) data \<lparr>acc_links = [], acc_nodesMap = []\<rparr>))))"
  by (simp add: prepareSankeyData_def Let_def filter_map comp_def linkOfEntry_value)


lemma sum_list_indicator:
  "sum_list (map (\<lambda>b. if Q b then 1 else 0) xs) = length (filter Q xs)"
  by (induction xs) simp_all

lemma summand_first:
  "(p1 \<longleftrightarrow> c) \<Longrightarrow> \<not> p2 \<Longrightarrow>
   (if q then (if p1 then 1 else 0) + (if p2 then 1 else 0) else 0) = (if q \<and> c then 1 else (0::nat))"
  by auto

lemma summand_second:
  "\<not> p1 \<Longrightarrow> (p2 \<longleftrightarrow> c) \<Longrightarrow>
   (if q then (if p1 then 1 else 0) + (if p2 then 1 else 0) else 0) = (if q \<and> c then 1 else (0::nat))"
  by auto

subsection \<open>The genre layer\<close>

lemma genreLayer_first_key:
  "genreLayer (Some (takeWhile (\<lambda>c. c \<noteq> CHR ''|'') (genreNode tg b @ ''|'' @ ratingNode b)))"
  by (simp add: genreNode_def)

lemma genreLayer_second_key:
  "\<not> genreLayer (Some (takeWhile (\<lambda>c. c \<noteq> CHR ''|'') (ratingNode b @ ''|'' @ movieNode b)))"
  by (simp add: ratingNode_def)

text \<open>
  On every input, the values of the links that leave the genre layer add up to the number
  of records that have a genre and a rating that is neither zero nor \<open>NaN\<close>.
\<close>

lemma genreLayerSum_count:
  "genreLayerSum (prepareSankeyData data tg) = length (filter qualifies data)"
proof -
  let ?P = "\<lambda>k. genreLayer (Some (takeWhile (\<lambda>c. c \<noteq> CHR ''|'') k))"
  let ?f = "\<lambda>b. if qualifies b
        then (if ?P (genreNode tg b @ ''|'' @ ratingNode b) then 1 else 0)
             + (if ?P (ratingNode b @ ''|'' @ movieNode b) then 1 else 0)
        else (0::nat)"
  have eq: "?f b = (if qualifies b then 1 else 0)" for b
    using summand_first [of "?P (genreNode tg b @ ''|'' @ ratingNode b)" True
        "?P (ratingNode b @ ''|'' @ movieNode b)" "qualifies b"]
      genreLayer_first_key [of tg b] genreLayer_second_key [of b]
    by (simp only: simp_thms)
  have "genreLayerSum (prepareSankeyData data tg)
      = sum_list (map snd (filter (\<lambda>e. ?P (fst e))
          (acc_links (fold (sankeyStep tg) data \<lparr>acc_links = [], acc_nodesMap = []\<rparr>))))"
    unfolding genreLayerSum_def links_sum by (simp add: linkOfEntry_source)
  also have "\<dots> = sum_list (map ?f data)"
    by (subst fold_sankeyStep_sum [where P = ?P]) simp
  also have "\<dots> = sum_list (map (\<lambda>b. if qualifies b then 1 else 0) data)"
    by (intro arg_cong [where f = sum_list] map_cong refl eq)
  finally show ?thesis
    by (simp add: sum_list_indicator)
qed

text \<open>A record without a genre changes neither the nodes nor the links.\<close>

lemma missing_genre_skipped: "genre b = [] \<Longrightarrow> sankeyStep tg b acc = acc"
  by (simp add: sankeyStep_skip qualifies_def)

subsection \<open>Keys without a separator in the genre\<close>

lemma genreNode_no_separator:
  "(genre b \<in> set tg \<longrightarrow> CHR ''|'' \<notin> set (genre b)) \<Longrightarrow> CHR ''|'' \<notin> set (genreNode tg b)"
  by (simp add: genreNode_def)

lemma takeWhile_key: "sep \<notin> set a \<Longrightarrow> takeWhile (\<lambda>c. c \<noteq> sep) (a @ sep # c) = a"
  by (induction a) auto

text \<open>
  The value leaving a rating node is, on every input, the number of counted records of
  that tier. The value entering it is that number when no top genre of the records
  contains the separator; then the flow through the node is conserved.
\<close>

lemma outflow_count:
  "outflow (prepareSankeyData data tg) (''r_'' @ t)
   = length (filter (\<lambda>b. qualifies b \<and> ratingNode b = ''r_'' @ t) data)"
proof -
  let ?P = "\<lambda>k. takeWhile (\<lambda>c. c \<noteq> CHR ''|'') k = ''r_'' @ t"
  let ?f = "\<lambda>b. if qualifies b
        then (if ?P (genreNode tg b @ ''|'' @ ratingNode b) then 1 else 0)
             + (if ?P (ratingNode b @ ''|'' @ movieNode b) then 1 else 0)
        else (0::nat)"
  have g: "\<not> ?P (genreNode tg b @ ''|'' @ ratingNode b)" for b
    by (simp add: genreNode_def)
  have r: "?P (ratingNode b @ ''|'' @ movieNode b) \<longleftrightarrow> ratingNode b = ''r_'' @ t" for b
    using takeWhile_key [OF ratingNode_no_separator, of b "movieNode b"] by simp
  have eq: "?f b = (if qualifies b \<and> ratingNode b = ''r_'' @ t then 1 else 0)" for b
    by (rule summand_second [OF g r])
  have "outflow (prepareSankeyData data tg) (''r_'' @ t)
      = sum_list (map snd (filter (\<lambda>e. ?P (fst e))
          (acc_links (fold (sankeyStep tg) data \<lparr>acc_links = [], acc_nodesMap = []\<rparr>))))"
    unfolding outflow_def links_sum by (simp add: linkOfEntry_source)
  also have "\<dots> = sum_list (map ?f data)"
    by (subst fold_sankeyStep_sum [where P = ?P]) simp
  also have "\<dots> = sum_list (map (\<lambda>b. if qualifies b \<and> ratingNode b = ''r_'' @ t then 1 else 0) data)"
    by (intro arg_cong [where f = sum_list] map_cong refl eq)
  finally show ?thesis
    by (simp add: sum_list_indicator)
qed

lemma linkOfEntry_target:
  "target (linkOfEntry e) = nth_opt (js_split CHR ''|'' [] (fst e)) 1"
  by (simp add: linkOfEntry_def Let_def)

lemma inflow_count:
  assumes "separatorFree data tg"
  shows "inflow (prepareSankeyData data tg) (''r_'' @ t)
   = length (filter (\<lambda>b. qualifies b \<and> ratingNode b = ''r_'' @ t) data)"
proof -
  let ?P = "\<lambda>k. nth_opt (js_split CHR ''|'' [] k) 1 = Some (''r_'' @ t)"
  let ?f = "\<lambda>b. if qualifies b
        then (if ?P (genreNode tg b @ ''|'' @ ratingNode b) then 1 else 0)
             + (if ?P (ratingNode b @ ''|'' @ movieNode b) then 1 else 0)
        else (0::nat)"
  have g: "?P (genreNode tg b @ ''|'' @ ratingNode b) \<longleftrightarrow> ratingNode b = ''r_'' @ t"
    if "b \<in> set data" for b
  proof -
    from that assms have "genre b \<in> set tg \<longrightarrow> CHR ''|'' \<notin> set (genre b)"
      by (simp add: separatorFree_def list_all_iff)
    then have "CHR ''|'' \<notin> set (genreNode tg b)"
      by (rule genreNode_no_separator)
    then have "js_split CHR ''|'' [] (genreNode tg b @ ''|'' @ ratingNode b)
        = [genreNode tg b, ratingNode b]"
      using js_split_pair [of "CHR ''|''" "genreNode tg b" "ratingNode b"]
      by (simp add: ratingNode_no_separator)
    then show ?thesis by simp
  qed
  have r: "\<not> ?P (ratingNode b @ ''|'' @ movieNode b)" for b
  proof -
    have "js_split CHR ''|'' [] (ratingNode b @ ''|'' @ movieNode b) = [ratingNode b, movieNode b]"
      using js_split_pair [of "CHR ''|''" "ratingNode b" "movieNode b"]
      by (simp add: ratingNode_no_separator movieNode_no_separator)
    then show ?thesis by (simp add: movieNode_def)
  qed
  have eq: "?f b = (if qualifies b \<and> ratingNode b = ''r_'' @ t then 1 else 0)"
    if "b \<in> set data" for b
    by (rule summand_first [OF g [OF that] r])
  have "inflow (prepareSankeyData data tg) (''r_'' @ t)
      = sum_list (map snd (filter (\<lambda>e. ?P (fst e))
          (acc_links (fold (sankeyStep tg) data \<lparr>acc_links = [], acc_nodesMap = []\<rparr>))))"
    unfolding inflow_def links_sum by (simp add: linkOfEntry_target)
  also have "\<dots> = sum_list (map ?f data)"
    by (subst fold_sankeyStep_sum [where P = ?P]) simp
  also have "\<dots> = sum_list (map (\<lambda>b. if qualifies b \<and> ratingNode b = ''r_'' @ t then 1 else 0) data)"
    by (intro arg_cong [where f = sum_list] map_cong refl eq)
  finally show ?thesis
    by (simp add: sum_list_indicator)
qed

lemma flow_conserved_separatorFree:
  "separatorFree data tg \<Longrightarrow>
   inflow (prepareSankeyData data tg) (''r_'' @ t) = outflow (prepareSankeyData data tg) (''r_'' @ t)"
  by (simp only: inflow_count outflow_count)


subsection \<open>One link for each pair\<close>

lemma map_set_keyset: "fst ` set (map_set m k v) = insert k (fst ` set m)"
proof -
  have "set (map fst (map_set m k v)) = insert k (set (map fst m))"
    unfolding map_set_keys by auto
  then show ?thesis by simp
qed

lemma sankeyStep_keyset:
  "fst ` set (acc_links (sankeyStep tg b acc)) =
     fst ` set (acc_links acc)
     \<union> (if qualifies b
        then {genreNode tg b @ ''|'' @ ratingNode b, ratingNode b @ ''|'' @ movieNode b}
        else {})"
proof (cases "qualifies b")
  case True
  then show ?thesis
    by (simp only: sankeyStep_links Let_def map_set_keyset if_True) blast
next
  case False
  then show ?thesis by (simp add: sankeyStep_skip)
qed

lemma sankeyStep_distinct:
  "distinct (map fst (acc_links acc)) \<Longrightarrow> distinct (map fst (acc_links (sankeyStep tg b acc)))"
proof (cases "qualifies b")
  case True
  assume "distinct (map fst (acc_links acc))"
  with True show ?thesis
    by (simp only: sankeyStep_links Let_def distinct_map_set)
next
  case False
  assume "distinct (map fst (acc_links acc))"
  with False show ?thesis by (simp add: sankeyStep_skip)
qed

lemma fold_sankeyStep_distinct:
  "distinct (map fst (acc_links acc)) \<Longrightarrow>
   distinct (map fst (acc_links (fold (sankeyStep tg) data acc)))"
  by (induction data arbitrary: acc) (simp_all add: sankeyStep_distinct)

lemma fold_sankeyStep_keyset:
  "fst ` set (acc_links (fold (sankeyStep tg) data acc)) =
     fst ` set (acc_links acc)
     \<union> (\<Union>b \<in> {b \<in> set data. qualifies b}.
          {genreNode tg b @ ''|'' @ ratingNode b, ratingNode b @ ''|'' @ movieNode b})"
proof (induction data arbitrary: acc)
  case Nil
  show ?case by simp
next
  case (Cons b data)
  show ?case
    unfolding fold_simps Cons.IH sankeyStep_keyset by auto
qed

lemma pair_of_key:
  assumes "CHR ''|'' \<notin> set a" and "CHR ''|'' \<notin> set c"
  shows "source (linkOfEntry (a @ ''|'' @ c, v)) = Some a"
    and "target (linkOfEntry (a @ ''|'' @ c, v)) = Some c"
  using linkOfEntry_pair [OF assms, of v] by simp_all

text \<open>
  The keys of the link map are distinct on every input. When every key splits into
  exactly the two ids it was joined from, distinct keys give distinct pairs.
\<close>

lemma links_distinct_pairs:
  assumes d: "distinct (map fst L)"
    and wf: "\<forall>k \<in> fst ` set L. \<exists>a c. k = a @ ''|'' @ c \<and> CHR ''|'' \<notin> set a \<and> CHR ''|'' \<notin> set c"
  shows "distinct (map (\<lambda>l. (source l, target l)) (map linkOfEntry L))"
proof -
  let ?pair = "\<lambda>e. (source (linkOfEntry e), target (linkOfEntry e))"
  have inj: "inj_on ?pair (set L)"
  proof (rule inj_onI)
    fix e e'
    assume e: "e \<in> set L" and e': "e' \<in> set L" and eq: "?pair e = ?pair e'"
    from e wf obtain a c where k: "fst e = a @ ''|'' @ c"
      and a: "CHR ''|'' \<notin> set a" and c: "CHR ''|'' \<notin> set c"
      by (metis imageI)
    from e' wf obtain a' c' where k': "fst e' = a' @ ''|'' @ c'"
      and a': "CHR ''|'' \<notin> set a'" and c': "CHR ''|'' \<notin> set c'"
      by (metis imageI)
    have "?pair e = (Some a, Some c)"
      using pair_of_key [OF a c, of "snd e"] k [symmetric] by simp
    moreover have "?pair e' = (Some a', Some c')"
      using pair_of_key [OF a' c', of "snd e'"] k' [symmetric] by simp
    ultimately have "a = a'" and "c = c'"
      using eq by simp_all
    with k k' have "fst e = fst e'"
      by simp
    moreover from d have "inj_on fst (set L)"
      by (simp add: distinct_map)
    ultimately show "e = e'"
      using e e' by (auto dest: inj_onD)
  qed
  from d have "distinct L"
    by (simp add: distinct_map)
  with inj have "distinct (map ?pair L)"
    by (simp add: distinct_map)
  then show ?thesis
    by (simp add: comp_def)
qed

lemma distinct_pairs_separatorFree:
  assumes "separatorFree data tg"
  shows "distinct (map (\<lambda>l. (source l, target l)) (links (prepareSankeyData data tg)))"
proof -
  let ?L = "acc_links (fold (sankeyStep tg) data \<lparr>acc_links = [], acc_nodesMap = []\<rparr>)"
  have d: "distinct (map fst ?L)"
    by (rule fold_sankeyStep_distinct) simp
  have wf: "\<forall>k \<in> fst ` set ?L. \<exists>a c. k = a @ ''|'' @ c \<and> CHR ''|'' \<notin> set a \<and> CHR ''|'' \<notin> set c"
  proof
    fix k
    assume "k \<in> fst ` set ?L"
    then obtain b where b: "b \<in> set data"
      and k: "k = genreNode tg b @ ''|'' @ ratingNode b \<or> k = ratingNode b @ ''|'' @ movieNode b"
      unfolding fold_sankeyStep_keyset by auto
    from b assms have "genre b \<in> set tg \<longrightarrow> CHR ''|'' \<notin> set (genre b)"
      by (simp add: separatorFree_def list_all_iff)
    then have g: "CHR ''|'' \<notin> set (genreNode tg b)"
      by (rule genreNode_no_separator)
    from k show "\<exists>a c. k = a @ ''|'' @ c \<and> CHR ''|'' \<notin> set a \<and> CHR ''|'' \<notin> set c"
    proof
      assume "k = genreNode tg b @ ''|'' @ ratingNode b"
      with g ratingNode_no_separator [of b] show ?thesis by blast
    next
      assume "k = ratingNode b @ ''|'' @ movieNode b"
      with ratingNode_no_separator [of b] movieNode_no_separator [of b] show ?thesis by blast
    qed
  qed
  from links_distinct_pairs [OF d wf] show ?thesis
    by (simp add: prepareSankeyData_def Let_def)
qed

lemma sample_separatorFree: "separatorFree [book1, book2] [''Fiction'']"
  by (simp add: separatorFree_def book1_def book2_def sampleBook_def)

lemma sample_not_separatorFree: "\<not> separatorFree [book3, book4] [''Sci-Fi|Fantasy'']"
  by (simp add: separatorFree_def book3_def sampleBook_def)

text \<open>The scenario of the specification: five nodes and four links of value 1.\<close>

lemma scenario_flow_graph:
  "map node_id (nodes (prepareSankeyData [book1, book2] [''Fiction''])) =
     [''g_Fiction'', ''r_Acclaimed (4.5+)'', ''m_Adapted to Movie'', ''r_Average (< 3.5)'',
      ''m_Not Adapted'']"
  "map (\<lambda>l. (source l, target l, link_value l)) (links (prepareSankeyData [book1, book2] [''Fiction''])) =
     [(Some ''g_Fiction'', Some ''r_Acclaimed (4.5+)'', 1),
      (Some ''r_Acclaimed (4.5+)'', Some ''m_Adapted to Movie'', 1),
      (Some ''g_Fiction'', Some ''r_Average (< 3.5)'', 1),
      (Some ''r_Average (< 3.5)'', Some ''m_Not Adapted'', 1)]"
  by (simp_all add: prepareSankeyData_def sankeyStep_def book1_def book2_def sampleBook_def
      getRatingTier_def truthy_str_def map_get_def linkOfEntry_def Let_def)
section \<open>The flow graph on a genre that contains the separator\<close>

lemma links_bar:
  "links (prepareSankeyData [book3, book4] [''Sci-Fi|Fantasy'']) =
     [\<lparr>source = Some ''g_Sci-Fi'', target = Some ''Fantasy'', link_value = 1\<rparr>,
      \<lparr>source = Some ''r_Acclaimed (4.5+)'', target = Some ''m_Adapted to Movie'', link_value = 1\<rparr>,
      \<lparr>source = Some ''g_Sci-Fi'', target = Some ''Fantasy'', link_value = 1\<rparr>,
      \<lparr>source = Some ''r_Average (< 3.5)'', target = Some ''m_Not Adapted'', link_value = 1\<rparr>]"
  by (simp add: prepareSankeyData_def sankeyStep_def book3_def book4_def sampleBook_def
      getRatingTier_def truthy_str_def map_get_def linkOfEntry_def Let_def)

lemma nodes_bar:
  "map node_id (nodes (prepareSankeyData [book3, book4] [''Sci-Fi|Fantasy''])) =
     [''g_Sci-Fi|Fantasy'', ''r_Acclaimed (4.5+)'', ''m_Adapted to Movie'',
      ''r_Average (< 3.5)'', ''m_Not Adapted'']"
  by (simp add: prepareSankeyData_def sankeyStep_def book3_def book4_def sampleBook_def
      getRatingTier_def truthy_str_def map_get_def Let_def)

text \<open>
  Claim C5 on two records of the top genre \<open>Sci-Fi|Fantasy\<close>, one Acclaimed and one
  Average. The two link keys \<open>g_Sci-Fi|Fantasy|r_...\<close> are split at their first two
  separators, so both links come out with source \<open>g_Sci-Fi\<close> and target \<open>Fantasy\<close>:
  the pair occurs twice in the link list, where the claim has one entry for each pair,
  and its source is not the id of any node.
  (The sum over the genre layer and the skipping of records without genre hold on every
  input, and the pairs are distinct whenever no top genre contains the separator: see
  \<open>genreLayerSum_count\<close>, \<open>missing_genre_skipped\<close> and \<open>distinct_pairs_separatorFree\<close>.)
\<close>

theorem prepareSankeyData_duplicate_pair:
  "map (\<lambda>l. (source l, target l, link_value l))
       (links (prepareSankeyData [book3, book4] [''Sci-Fi|Fantasy'']))
   = [(Some ''g_Sci-Fi'', Some ''Fantasy'', 1),
      (Some ''r_Acclaimed (4.5+)'', Some ''m_Adapted to Movie'', 1),
      (Some ''g_Sci-Fi'', Some ''Fantasy'', 1),
      (Some ''r_Average (< 3.5)'', Some ''m_Not Adapted'', 1)]
   \<and> \<not> distinct (map (\<lambda>l. (source l, target l))
                       (links (prepareSankeyData [book3, book4] [''Sci-Fi|Fantasy''])))
   \<and> ''g_Sci-Fi'' \<notin> set (map node_id (nodes (prepareSankeyData [book3, book4] [''Sci-Fi|Fantasy''])))"
  by (simp add: links_bar nodes_bar)

text \<open>
  Claim C10 on the same input. The rating node \<open>r_Acclaimed (4.5+)\<close> is in the node
  list and one record leaves it, but no link has it as its target: the link that should
  enter it has the target \<open>Fantasy\<close>, so the value entering the node is 0 and the value
  leaving it is 1, where the claim has them equal. (Whenever no top genre contains the
  separator the two are equal: see \<open>flow_conserved_separatorFree\<close>.)
\<close>

theorem prepareSankeyData_flow_lost:
  "''r_Acclaimed (4.5+)''
     \<in> set (map node_id (nodes (prepareSankeyData [book3, book4] [''Sci-Fi|Fantasy''])))
   \<and> inflow (prepareSankeyData [book3, book4] [''Sci-Fi|Fantasy'']) ''r_Acclaimed (4.5+)'' = 0
   \<and> outflow (prepareSankeyData [book3, book4] [''Sci-Fi|Fantasy'']) ''r_Acclaimed (4.5+)'' = 1"
  by (simp add: nodes_bar inflow_def outflow_def links_bar)

end
